theory Spec2Isabelle
  imports Complex_Main "HOL-Library.Word"
begin

section \<open>Python values used by the connector\<close>

text \<open>
  A Python \<^verbatim>\<open>str\<close> is a sequence of Unicode code points, so it is modelled as a list of
  natural numbers; \<open>lit\<close> turns an ASCII literal of the source into such a list.
  A payload (\<^verbatim>\<open>bytearray\<close>) is a list of bytes.
\<close>

type_synonym pystr = "nat list"
type_synonym bytes = "8 word list"

definition lit :: "string \<Rightarrow> pystr" where
  "lit s = map of_char s"

text \<open>
  The exceptions the code can meet (\<open>OtherException\<close> is an instance of \<^verbatim>\<open>Exception\<close> itself). \<open>OSError\<close> is the only class here that has an
  \<^verbatim>\<open>errno\<close> attribute (which may be \<^verbatim>\<open>None\<close>); its second argument, and the argument of
  every other class but \<open>KeyError\<close>, is the text \<^verbatim>\<open>str(ex)\<close>. \<open>KeyError\<close> carries the
  missing key, \<^verbatim>\<open>ex.args[0]\<close>, a string or an integer; its text is the \<^verbatim>\<open>repr\<close> of the key
  (a string key between apostrophes, code point 39).
\<close>

text \<open>A text between apostrophes (code point 39), as Python's messages quote names.\<close>

definition quoted :: "pystr \<Rightarrow> pystr" where
  "quoted s = [39] @ s @ [39]"

text \<open>Decimal text of an integer, as \<^verbatim>\<open>str\<close> prints it.\<close>

fun digits :: "nat \<Rightarrow> pystr" where
  "digits n = (if n < 10 then [48 + n] else digits (n div 10) @ [48 + n mod 10])"

definition str_int :: "int \<Rightarrow> pystr" where
  "str_int i = (if i < 0 then 45 # digits (nat (- i)) else digits (nat i))"

datatype key = SKey pystr | IKey int

fun str_key :: "key \<Rightarrow> pystr" where
  "str_key (SKey k) = k"
| "str_key (IKey n) = str_int n"

fun repr_key :: "key \<Rightarrow> pystr" where
  "repr_key (SKey k) = quoted k"
| "repr_key (IKey n) = str_int n"

datatype exn =
    JSONDecodeError pystr
  | KeyError key
  | TypeError pystr
  | IndexError pystr
  | AttributeError pystr
  | ValueError pystr
  | OSError "int option" pystr
  | OtherException pystr

fun str_exn :: "exn \<Rightarrow> pystr" where
  "str_exn (JSONDecodeError m) = m"
| "str_exn (KeyError k) = repr_key k"
| "str_exn (TypeError m) = m"
| "str_exn (IndexError m) = m"
| "str_exn (AttributeError m) = m"
| "str_exn (ValueError m) = m"
| "str_exn (OSError e m) = m"
| "str_exn (OtherException m) = m"

text \<open>
  What \<^verbatim>\<open>json.loads\<close> returns. A request string is represented by what the first two
  statements of an operation make of it: it is falsy (\<^verbatim>\<open>None\<close> or empty), or
  \<^verbatim>\<open>json.loads\<close> raises \<^verbatim>\<open>JSONDecodeError\<close> with some text, or it parses to a value.
\<close>

datatype json =
    JNull
  | JBool bool
  | JInt int
  | JFloat rat
  | JStr pystr
  | JList "json list"
  | JObj "(pystr \<times> json) list"

datatype request = Empty | Malformed pystr | Parsed json

text \<open>\<^verbatim>\<open>type(v).__name__\<close>, as the messages of \<^verbatim>\<open>TypeError\<close> print it.\<close>

fun type_name :: "json \<Rightarrow> pystr" where
  "type_name JNull = lit ''NoneType''"
| "type_name (JBool b) = lit ''bool''"
| "type_name (JInt n) = lit ''int''"
| "type_name (JFloat r) = lit ''float''"
| "type_name (JStr s) = lit ''str''"
| "type_name (JList xs) = lit ''list''"
| "type_name (JObj kvs) = lit ''dict''"

fun py_truthy :: "json \<Rightarrow> bool" where
  "py_truthy JNull = False"
| "py_truthy (JBool b) = b"
| "py_truthy (JInt n) = (n \<noteq> 0)"
| "py_truthy (JFloat r) = (r \<noteq> 0)"
| "py_truthy (JStr s) = (s \<noteq> [])"
| "py_truthy (JList xs) = (xs \<noteq> [])"
| "py_truthy (JObj kvs) = (kvs \<noteq> [])"

fun py_len :: "json \<Rightarrow> exn + nat" where
  "py_len (JStr s) = Inr (length s)"
| "py_len (JList xs) = Inr (length xs)"
| "py_len (JObj kvs) = Inr (length kvs)"
| "py_len v = Inl (TypeError (lit ''object of type '' @ quoted (type_name v) @ lit '' has no len()''))"

fun py_iter :: "json \<Rightarrow> exn + json list" where
  "py_iter (JStr s) = Inr (map (\<lambda>c. JStr [c]) s)"
| "py_iter (JList xs) = Inr xs"
| "py_iter (JObj kvs) = Inr (map (\<lambda>kv. JStr (fst kv)) kvs)"
| "py_iter v = Inl (TypeError (quoted (type_name v) @ lit '' object is not iterable''))"

text \<open>\<^verbatim>\<open>v[key]\<close> for a string key.\<close>

fun py_getitem :: "json \<Rightarrow> pystr \<Rightarrow> exn + json" where
  "py_getitem (JObj kvs) k = (case map_of kvs k of None \<Rightarrow> Inl (KeyError (SKey k)) | Some v \<Rightarrow> Inr v)"
| "py_getitem (JList xs) k = Inl (TypeError (lit ''list indices must be integers or slices, not str''))"
| "py_getitem (JStr s) k =
     Inl (TypeError (lit ''string indices must be integers, not '' @ quoted (lit ''str'')))"
| "py_getitem v k = Inl (TypeError (quoted (type_name v) @ lit '' object is not subscriptable''))"

section \<open>The topic pattern\<close>

text \<open>
  The fragment of Python's \<^verbatim>\<open>re\<close> that the pattern \<^verbatim>\<open>^[0-9a-z/]+$\<close> needs: the two anchors and
  a repeated character class given by its ranges. \<open>ends a s i\<close> lists the positions where a
  match of \<open>a\<close> that starts at \<open>i\<close> can stop; \<^verbatim>\<open>$\<close> matches at the end of the string and
  also just before a final newline. \<^verbatim>\<open>re.fullmatch\<close> succeeds when some way of matching
  the whole pattern from position 0 stops at the end of the string.
\<close>

datatype atom = Caret | Dollar | OneOrMore "(nat \<times> nat) list"

definition in_class :: "(nat \<times> nat) list \<Rightarrow> nat \<Rightarrow> bool" where
  "in_class cls c = list_ex (\<lambda>r. fst r \<le> c \<and> c \<le> snd r) cls"

fun ends :: "atom \<Rightarrow> pystr \<Rightarrow> nat \<Rightarrow> nat list" where
  "ends Caret s i = (if i = 0 then [i] else [])"
| "ends Dollar s i =
     (if i = length s \<or> (Suc i = length s \<and> s ! i = 10) then [i] else [])"
| "ends (OneOrMore cls) s i =
     map (\<lambda>k. i + k) [1 ..< Suc (length (takeWhile (in_class cls) (drop i s)))]"

fun run :: "atom list \<Rightarrow> pystr \<Rightarrow> nat \<Rightarrow> nat list" where
  "run [] s i = [i]"
| "run (a # as) s i = concat (map (run as s) (ends a s i))"

definition fullmatch :: "atom list \<Rightarrow> pystr \<Rightarrow> bool" where
  "fullmatch r s = (length s \<in> set (run r s 0))"

definition pattern :: "atom list" where
  "pattern = [Caret,
              OneOrMore [(of_char CHR ''0'', of_char CHR ''9''),
                         (of_char CHR ''a'', of_char CHR ''z''),
                         (of_char CHR ''/'', of_char CHR ''/'')],
              Dollar]"

text \<open>
  The grammar as the specification words it: a non-empty string of lowercase ASCII
  letters, ASCII digits and \<^verbatim>\<open>/\<close>, and nothing else.
\<close>

definition matches_grammar :: "pystr \<Rightarrow> bool" where
  "matches_grammar s \<longleftrightarrow>
     s \<noteq> [] \<and> list_all (\<lambda>c. (48 \<le> c \<and> c \<le> 57) \<or> (97 \<le> c \<and> c \<le> 122) \<or> c = 47) s"

section \<open>Session state, results and events\<close>

text \<open>
  Callbacks are opaque callables: each is identified by a number, and calling it is
  recorded as an event. So is every call into the MQTT client. An operation returns the
  new state, the events in the order they happened, and its result.
\<close>

record sub_result =
  resultCode :: int
  result :: pystr
  topic :: pystr

record response =
  status :: int
  message :: pystr

record feed_response = response +
  failedTopics :: "sub_result list"

datatype ack =
    SubscribeAckResponse int pystr "sub_result list"
  | UnsubscribeAckResponse int pystr int pystr

datatype event =
    ErrorCb nat int pystr
  | AckCb nat ack
  | DataCb nat bytes pystr
  | MqttBind
  | MqttCredentials pystr pystr
  | MqttConnect json json
  | MqttLoopStart
  | MqttSubscribe "(pystr \<times> nat) list"
  | MqttUnsubscribe "pystr list"
  | MqttDisconnect
  | MqttLoopStop

record connect =
  topic_handler :: "pystr \<rightharpoonup> nat option"
  subscriptions :: "int \<rightharpoonup> (pystr \<times> nat) list"
  count :: nat
  on_acknowledge_response :: "nat option"
  on_error :: "nat option"

text \<open>\<^verbatim>\<open>if self.__on_error: self.__on_error(code, text)\<close>\<close>

definition notify :: "connect \<Rightarrow> int \<Rightarrow> pystr \<Rightarrow> event list" where
  "notify st code text = (case on_error st of None \<Rightarrow> [] | Some cb \<Rightarrow> [ErrorCb cb code text])"

text \<open>
  The text the three \<^verbatim>\<open>except\<close> clauses of the public operations put into the result.
\<close>

fun error_text :: "exn \<Rightarrow> pystr" where
  "error_text (JSONDecodeError m) = lit ''Invalid JSON: '' @ m"
| "error_text (KeyError k) =
     lit ''The parameter '' @ quoted (str_key k) @ lit '' should not be empty''"
| "error_text e = str_exn e"

section \<open>Building the topic lists\<close>

text \<open>\<^verbatim>\<open>ds.SubscribeResult(104, "Invalid topic", topic).to_dict()\<close>\<close>

definition invalid_topic :: "pystr \<Rightarrow> sub_result" where
  "invalid_topic s = \<lparr>resultCode = 104, result = lit ''Invalid topic'', topic = s\<rparr>"

fun subscription_loop ::
  "pystr \<Rightarrow> json list \<Rightarrow> (pystr \<times> nat) list \<Rightarrow> sub_result list
     \<Rightarrow> (pystr \<times> nat) list \<times> sub_result list \<times> exn option" where
  "subscription_loop topic_prefix [] valid_topics failed = (valid_topics, failed, None)"
| "subscription_loop topic_prefix (t # ts) valid_topics failed =
     (case t of
        JStr s \<Rightarrow>
          if fullmatch pattern s
          then subscription_loop topic_prefix ts (valid_topics @ [(topic_prefix @ s, 0)]) failed
          else subscription_loop topic_prefix ts valid_topics
                 (failed @ [invalid_topic s])
      | _ \<Rightarrow> (valid_topics, failed,
               Some (TypeError (lit ''expected string or bytes-like object, got ''
                                  @ quoted (type_name t)))))"

text \<open>
  \<^verbatim>\<open>_build_subscription_topics\<close>: the whole loop sits in one \<^verbatim>\<open>try\<close>, so the first
  exception ends it, is reported to the error callback and is absorbed; what was
  appended before stays.
\<close>

definition build_subscription_topics ::
  "connect \<Rightarrow> json \<Rightarrow> pystr \<Rightarrow> (pystr \<times> nat) list \<times> sub_result list \<times> event list" where
  "build_subscription_topics st req_data topic_prefix =
     (case py_getitem req_data (lit ''subscriptionList'') of
        Inl e \<Rightarrow> ([], [], notify st (- 1) (str_exn e))
      | Inr v \<Rightarrow>
         (case py_iter v of
            Inl e \<Rightarrow> ([], [], notify st (- 1) (str_exn e))
          | Inr items \<Rightarrow>
             (case subscription_loop topic_prefix items [] [] of
                (valid_topics, failed, None) \<Rightarrow> (valid_topics, failed, [])
              | (valid_topics, failed, Some e) \<Rightarrow>
                  (valid_topics, failed, notify st (- 1) (str_exn e)))))"

section \<open>Subscribe\<close>

text \<open>
  The MQTT client is outside the repository: what its \<^verbatim>\<open>subscribe\<close> call does is an
  argument of the operation, either an exception or the triple of \<^verbatim>\<open>res[0].value\<close>,
  \<^verbatim>\<open>mqtt.error_string(res[0])\<close> and the message id \<^verbatim>\<open>res[1]\<close>.
\<close>

type_synonym transport_reply = "exn + (int \<times> pystr \<times> int)"

definition feed_result :: "int \<Rightarrow> pystr \<Rightarrow> sub_result list \<Rightarrow> feed_response" where
  "feed_result code msg failed = \<lparr>status = code, message = msg, failedTopics = failed\<rparr>"

definition within_bounds :: "json \<Rightarrow> exn + bool" where
  "within_bounds v =
     (if py_truthy v
      then (case py_len v of Inl e \<Rightarrow> Inl e | Inr n \<Rightarrow> Inr (n \<le> 1024))
      else Inr False)"

definition subscribe_try ::
  "connect \<Rightarrow> request \<Rightarrow> pystr \<Rightarrow> transport_reply
     \<Rightarrow> connect \<times> event list \<times> (exn + feed_response)" where
  "subscribe_try st req topic_prefix reply =
     (case req of
        Empty \<Rightarrow> (st, [], Inr (feed_result 101 (lit ''Request cannot be null'') []))
      | Malformed m \<Rightarrow> (st, [], Inl (JSONDecodeError m))
      | Parsed req_data \<Rightarrow>
         (case py_getitem req_data (lit ''subscriptionList'') of
            Inl e \<Rightarrow> (st, [], Inl e)
          | Inr v \<Rightarrow>
             (case within_bounds v of
                Inl e \<Rightarrow> (st, [], Inl e)
              | Inr False \<Rightarrow>
                  (st, [], Inr (feed_result 102
                     (lit ''TopicList cannot be null and no. of topics should be less than 1024'') []))
              | Inr True \<Rightarrow>
                 (case build_subscription_topics st req_data topic_prefix of
                    (valid_topics, failed, evs) \<Rightarrow>
                      if valid_topics \<noteq> [] then
                        (case reply of
                           Inl e \<Rightarrow> (st, evs @ [MqttSubscribe valid_topics], Inl e)
                         | Inr (rc, text, mid) \<Rightarrow>
                             if rc = 0 then
                               (st\<lparr>subscriptions := (subscriptions st)(mid \<mapsto> valid_topics)\<rparr>,
                                evs @ [MqttSubscribe valid_topics],
                                Inr (feed_result rc
                                  (if length failed > 0 then lit ''Subscription partially sent''
                                   else text) failed))
                             else
                               (st, evs @ [MqttSubscribe valid_topics],
                                Inr (feed_result rc text failed)))
                      else (st, evs, Inr (feed_result 103 (lit ''Subscripton failed'') failed))))))"

text \<open>
  \<^verbatim>\<open>__subscribe\<close>: the body above inside its three \<^verbatim>\<open>except\<close> clauses. \<open>Inl\<close> in the result
  would be an exception that leaves the operation.
\<close>

definition subscribe ::
  "connect \<Rightarrow> request \<Rightarrow> pystr \<Rightarrow> transport_reply
     \<Rightarrow> connect \<times> event list \<times> (exn + feed_response)" where
  "subscribe st req topic_prefix reply =
     (case subscribe_try st req topic_prefix reply of
        (st', evs, Inr r) \<Rightarrow> (st', evs, Inr r)
      | (st', evs, Inl e) \<Rightarrow>
          (st', evs @ notify st' (- 1) (error_text e),
           Inr (feed_result (- 1) (error_text e) [])))"

section \<open>Unsubscribe\<close>

fun unsubscribe_loop ::
  "pystr \<Rightarrow> json list \<Rightarrow> pystr list \<Rightarrow> sub_result list
     \<Rightarrow> pystr list \<times> sub_result list \<times> exn option" where
  "unsubscribe_loop topic_prefix [] valid_topics failed = (valid_topics, failed, None)"
| "unsubscribe_loop topic_prefix (t # ts) valid_topics failed =
     (case t of
        JStr s \<Rightarrow>
          if fullmatch pattern s
          then unsubscribe_loop topic_prefix ts (valid_topics @ [topic_prefix @ s]) failed
          else unsubscribe_loop topic_prefix ts valid_topics
                 (failed @ [invalid_topic s])
      | _ \<Rightarrow> (valid_topics, failed,
               Some (TypeError (lit ''expected string or bytes-like object, got ''
                                  @ quoted (type_name t)))))"

definition build_unsubscribe_options ::
  "connect \<Rightarrow> json \<Rightarrow> pystr \<Rightarrow> pystr list \<times> sub_result list \<times> event list" where
  "build_unsubscribe_options st req_data topic_prefix =
     (case py_getitem req_data (lit ''unsubscriptionList'') of
        Inl e \<Rightarrow> ([], [], notify st (- 1) (str_exn e))
      | Inr v \<Rightarrow>
         (case py_iter v of
            Inl e \<Rightarrow> ([], [], notify st (- 1) (str_exn e))
          | Inr items \<Rightarrow>
             (case unsubscribe_loop topic_prefix items [] [] of
                (valid_topics, failed, None) \<Rightarrow> (valid_topics, failed, [])
              | (valid_topics, failed, Some e) \<Rightarrow>
                  (valid_topics, failed, notify st (- 1) (str_exn e)))))"

text \<open>
  The body of \<^verbatim>\<open>__unsubscribe\<close>. The message id in the client's reply is never read, and
  no field of the session is assigned.
\<close>

definition unsubscribe_try ::
  "connect \<Rightarrow> request \<Rightarrow> pystr \<Rightarrow> transport_reply
     \<Rightarrow> connect \<times> event list \<times> (exn + feed_response)" where
  "unsubscribe_try st req topic_prefix reply =
     (case req of
        Empty \<Rightarrow> (st, [], Inr (feed_result 101 (lit ''Request cannot be null'') []))
      | Malformed m \<Rightarrow> (st, [], Inl (JSONDecodeError m))
      | Parsed req_data \<Rightarrow>
         (case py_getitem req_data (lit ''unsubscriptionList'') of
            Inl e \<Rightarrow> (st, [], Inl e)
          | Inr v \<Rightarrow>
             (case within_bounds v of
                Inl e \<Rightarrow> (st, [], Inl e)
              | Inr False \<Rightarrow>
                  (st, [], Inr (feed_result 102
                     (lit ''TopicList cannot be null and no. of topics should be less than 1024'') []))
              | Inr True \<Rightarrow>
                 (case build_unsubscribe_options st req_data topic_prefix of
                    (valid_topics, failed, evs) \<Rightarrow>
                      if valid_topics \<noteq> [] then
                        (case reply of
                           Inl e \<Rightarrow> (st, evs @ [MqttUnsubscribe valid_topics], Inl e)
                         | Inr (rc, text, mid) \<Rightarrow>
                             if rc = 0 then
                               (st, evs @ [MqttUnsubscribe valid_topics],
                                Inr (feed_result rc
                                  (if length failed > 0 then lit ''Unsubscripton partially sent''
                                   else text) failed))
                             else
                               (st, evs @ [MqttUnsubscribe valid_topics],
                                Inr (feed_result rc text failed)))
                      else (st, evs, Inr (feed_result 103 (lit ''Unsubscription failed'') failed))))))"

definition unsubscribe ::
  "connect \<Rightarrow> request \<Rightarrow> pystr \<Rightarrow> transport_reply
     \<Rightarrow> connect \<times> event list \<times> (exn + feed_response)" where
  "unsubscribe st req topic_prefix reply =
     (case unsubscribe_try st req topic_prefix reply of
        (st', evs, Inr r) \<Rightarrow> (st', evs, Inr r)
      | (st', evs, Inl e) \<Rightarrow>
          (st', evs @ notify st' (- 1) (error_text e),
           Inr (feed_result (- 1) (error_text e) [])))"

section \<open>Categories and their topic namespaces\<close>

datatype category =
    Feed | Index | OpenInterest | MarketStatus | Lpp | High52Week | Low52Week
  | UpperCircuit | LowerCircuit | OrderUpdates | TradeUpdates

definition mw_topic :: pystr where "mw_topic = lit ''prod/marketfeed/mw/v1/''"
definition index_topic :: pystr where "index_topic = lit ''prod/marketfeed/index/v1/''"
definition oi_topic :: pystr where "oi_topic = lit ''prod/marketfeed/oi/v1/''"
definition market_status :: pystr where "market_status = lit ''prod/marketfeed/marketstatus/v1/''"
definition lpp :: pystr where "lpp = lit ''prod/marketfeed/lpp/v1/''"
definition high_52_week :: pystr where "high_52_week = lit ''prod/marketfeed/high52week/v1/''"
definition low_52_week :: pystr where "low_52_week = lit ''prod/marketfeed/low52week/v1/''"
definition upper_circuit :: pystr where "upper_circuit = lit ''prod/marketfeed/uppercircuit/v1/''"
definition lower_circuit :: pystr where "lower_circuit = lit ''prod/marketfeed/lowercircuit/v1/''"
definition order_updates :: pystr where "order_updates = lit ''prod/updates/order/v1/''"
definition trade_updates :: pystr where "trade_updates = lit ''prod/updates/trade/v1/''"

text \<open>
  The namespace each pair \<^verbatim>\<open>subscribe_*\<close> / \<^verbatim>\<open>unsubscribe_*\<close> passes on as
  \<^verbatim>\<open>topic_prefix\<close>.
\<close>

fun topic_of :: "category \<Rightarrow> pystr" where
  "topic_of Feed = mw_topic"
| "topic_of Index = index_topic"
| "topic_of OpenInterest = oi_topic"
| "topic_of MarketStatus = market_status"
| "topic_of Lpp = lpp"
| "topic_of High52Week = high_52_week"
| "topic_of Low52Week = low_52_week"
| "topic_of UpperCircuit = upper_circuit"
| "topic_of LowerCircuit = lower_circuit"
| "topic_of OrderUpdates = order_updates"
| "topic_of TradeUpdates = trade_updates"

text \<open>
  The public operations \<^verbatim>\<open>subscribe_feed\<close>, \<^verbatim>\<open>subscribe_index\<close>, ... and their
  \<^verbatim>\<open>unsubscribe_*\<close> counterparts, one per category.
\<close>

definition subscribe_category ::
  "category \<Rightarrow> connect \<Rightarrow> request \<Rightarrow> transport_reply
     \<Rightarrow> connect \<times> event list \<times> (exn + feed_response)" where
  "subscribe_category c st req reply = subscribe st req (topic_of c) reply"

definition unsubscribe_category ::
  "category \<Rightarrow> connect \<Rightarrow> request \<Rightarrow> transport_reply
     \<Rightarrow> connect \<times> event list \<times> (exn + feed_response)" where
  "unsubscribe_category c st req reply = unsubscribe st req (topic_of c) reply"

section \<open>Registering data handlers\<close>

text \<open>
  \<^verbatim>\<open>__set_callback\<close> also does \<^verbatim>\<open>setattr(self, attr_name, func)\<close>; no code of the dispatcher
  reads that attribute, so only the handler table is kept.
\<close>

definition set_callback :: "connect \<Rightarrow> nat option \<Rightarrow> pystr \<Rightarrow> connect" where
  "set_callback st func topic_name = st\<lparr>topic_handler := (topic_handler st)(topic_name \<mapsto> func)\<rparr>"

text \<open>
  The topic each property setter \<^verbatim>\<open>on_*_received\<close> hands to \<^verbatim>\<open>__set_callback\<close>, read off
  the eleven setters one by one.
\<close>

fun setter_topic :: "category \<Rightarrow> pystr" where
  "setter_topic Feed = mw_topic"
| "setter_topic Index = index_topic"
| "setter_topic OpenInterest = oi_topic"
| "setter_topic MarketStatus = market_status"
| "setter_topic Lpp = lpp"
| "setter_topic High52Week = high_52_week"
| "setter_topic Low52Week = high_52_week"
| "setter_topic LowerCircuit = lower_circuit"
| "setter_topic UpperCircuit = upper_circuit"
| "setter_topic OrderUpdates = order_updates"
| "setter_topic TradeUpdates = trade_updates"

definition register_handler :: "category \<Rightarrow> nat option \<Rightarrow> connect \<Rightarrow> connect" where
  "register_handler c func st = set_callback st func (setter_topic c)"

section \<open>Dispatching inbound messages\<close>

text \<open>
  \<^verbatim>\<open>re.split(r'v1/', s)\<close>: the pattern is a literal, and the string is cut at every
  occurrence of it, leftmost first.
\<close>

definition marker :: pystr where
  "marker = lit ''v1/''"

fun re_split :: "pystr \<Rightarrow> pystr \<Rightarrow> pystr list" where
  "re_split sep [] = [[]]"
| "re_split sep (c # cs) =
     (if take (length sep) (c # cs) = sep
      then [] # re_split sep (drop (length sep - 1) cs)
      else (case re_split sep cs of [] \<Rightarrow> [[c]] | x # xs \<Rightarrow> (c # x) # xs))"

definition on_message_try ::
  "connect \<Rightarrow> pystr \<Rightarrow> bytes \<Rightarrow> connect \<times> event list \<times> exn option" where
  "on_message_try st topic_name payload =
     (let split_topic = re_split marker topic_name;
          st' = st\<lparr>count := count st + 1\<rparr>
      in case split_topic of
           [] \<Rightarrow> (st', [], Some (IndexError (lit ''list index out of range'')))
         | first # rest \<Rightarrow>
            (case topic_handler st' (first @ marker) of
               Some (Some handler) \<Rightarrow>
                 (case rest of
                    [] \<Rightarrow> (st', [], Some (IndexError (lit ''list index out of range'')))
                  | second # _ \<Rightarrow> (st', [DataCb handler payload second], None))
             | _ \<Rightarrow> (st', [], None)))"

definition on_message :: "connect \<Rightarrow> pystr \<Rightarrow> bytes \<Rightarrow> connect \<times> event list" where
  "on_message st topic_name payload =
     (case on_message_try st topic_name payload of
        (st', evs, None) \<Rightarrow> (st', evs)
      | (st', evs, Some e) \<Rightarrow> (st', evs @ notify st' (- 1) (str_exn e)))"

section \<open>Acknowledgements\<close>

record reason_code =
  code_value :: int
  packetType :: int

text \<open>
  What the loop of \<^verbatim>\<open>__on_subscribe\<close> iterates over beside the reason codes: the stored
  list of \<^verbatim>\<open>(topic, qos)\<close> tuples, or the two members of the default \<^verbatim>\<open>("Unknown", 0)\<close>.
\<close>

datatype pending_item = Tuple pystr nat | PStr pystr | PInt int

definition pending_items :: "connect \<Rightarrow> int \<Rightarrow> pending_item list" where
  "pending_items st mid =
     (case subscriptions st mid of
        Some topics \<Rightarrow> map (\<lambda>tq. Tuple (fst tq) (snd tq)) topics
      | None \<Rightarrow> [PStr (lit ''Unknown''), PInt 0])"

text \<open>\<^verbatim>\<open>topic[0]\<close> and \<^verbatim>\<open>xs[1]\<close>.\<close>

fun item0 :: "pending_item \<Rightarrow> exn + pystr" where
  "item0 (Tuple t q) = Inr t"
| "item0 (PStr []) = Inl (IndexError (lit ''string index out of range''))"
| "item0 (PStr (c # cs)) = Inr [c]"
| "item0 (PInt n) = Inl (TypeError (quoted (lit ''int'') @ lit '' object is not subscriptable''))"

fun index1 :: "pystr list \<Rightarrow> exn + pystr" where
  "index1 (x # y # ys) = Inr y"
| "index1 xs = Inl (IndexError (lit ''list index out of range''))"

fun ack_loop :: "(reason_code \<times> pending_item) list \<Rightarrow> sub_result list \<Rightarrow> exn + sub_result list" where
  "ack_loop [] ls = Inr ls"
| "ack_loop ((rc, item) # rest) ls =
     (case item0 item of
        Inl e \<Rightarrow> Inl e
      | Inr t \<Rightarrow>
         (case index1 (re_split marker t) of
            Inl e \<Rightarrow> Inl e
          | Inr suffix \<Rightarrow>
              ack_loop rest
                (ls @ [\<lparr>resultCode = code_value rc,
                        result = (if code_value rc = 0 then lit ''Granted'' else lit ''Not Granted''),
                        topic = suffix\<rparr>])))"

definition notify_ack :: "connect \<Rightarrow> ack \<Rightarrow> event list" where
  "notify_ack st a =
     (case on_acknowledge_response st of None \<Rightarrow> [] | Some cb \<Rightarrow> [AckCb cb a])"

definition on_subscribe_try ::
  "connect \<Rightarrow> int \<Rightarrow> reason_code list \<Rightarrow> connect \<times> event list \<times> exn option" where
  "on_subscribe_try st mid reason_code_list =
     (case ack_loop (zip reason_code_list (pending_items st mid)) [] of
        Inl e \<Rightarrow> (st, [], Some e)
      | Inr ls \<Rightarrow>
         (case subscriptions st mid of
            None \<Rightarrow> (st, [], Some (KeyError (IKey mid)))
          | Some _ \<Rightarrow>
             (let st' = st\<lparr>subscriptions := (subscriptions st)(mid := None)\<rparr>
              in case reason_code_list of
                   [] \<Rightarrow> (st', [], Some (IndexError (lit ''list index out of range'')))
                 | rc # _ \<Rightarrow>
                     (st', notify_ack st' (SubscribeAckResponse (packetType rc) (lit ''SUBACK'') ls),
                      None))))"

definition on_subscribe :: "connect \<Rightarrow> int \<Rightarrow> reason_code list \<Rightarrow> connect \<times> event list" where
  "on_subscribe st mid reason_code_list =
     (case on_subscribe_try st mid reason_code_list of
        (st', evs, None) \<Rightarrow> (st', evs)
      | (st', evs, Some e) \<Rightarrow> (st', evs @ notify st' (- 1) (str_exn e)))"

text \<open>
  \<^verbatim>\<open>__on_unsubscribe\<close> reads nothing but \<^verbatim>\<open>properties.packetType\<close>; \<open>NoProperties\<close> stands for
  an argument without that attribute.
\<close>

datatype properties = NoProperties | Properties int

definition on_unsubscribe_try ::
  "connect \<Rightarrow> int \<Rightarrow> reason_code list \<Rightarrow> properties \<Rightarrow> connect \<times> event list \<times> exn option" where
  "on_unsubscribe_try st mid reason_code_list props =
     (case props of
        NoProperties \<Rightarrow>
          (st, [],
           Some (AttributeError (quoted (lit ''NoneType'') @ lit '' object has no attribute ''
                                   @ quoted (lit ''packetType''))))
      | Properties pt \<Rightarrow>
          (st, notify_ack st
                 (UnsubscribeAckResponse pt (lit ''UNSUBACK'') 0 (lit ''Unsubscribed Successfully'')),
           None))"

definition on_unsubscribe ::
  "connect \<Rightarrow> int \<Rightarrow> reason_code list \<Rightarrow> properties \<Rightarrow> connect \<times> event list" where
  "on_unsubscribe st mid reason_code_list props =
     (case on_unsubscribe_try st mid reason_code_list props of
        (st', evs, None) \<Rightarrow> (st', evs)
      | (st', evs, Some e) \<Rightarrow> (st', evs @ notify st' (- 1) (str_exn e)))"

section \<open>Connect and disconnect\<close>

text \<open>
  What the collaborators of \<^verbatim>\<open>connect_host\<close> do is an argument of the operation:
  \<^item> \<open>user_name\<close>: what \<^verbatim>\<open>__get_user_name\<close> returns for the token (it catches every
    exception itself);
  \<^item> \<open>token_check\<close>: the run of \<^verbatim>\<open>__validate_Token\<close>, either an exception raised inside its
    \<^verbatim>\<open>try\<close>, or the pair it returns, the second member already as \<^verbatim>\<open>str\<close> prints it;
  \<^item> \<open>is_connected\<close>: the client's \<^verbatim>\<open>is_connected()\<close>, a value or an exception;
  \<^item> \<open>connect_reply\<close>: the client's \<^verbatim>\<open>connect\<close>, an exception or \<^verbatim>\<open>res.value\<close> with
    \<^verbatim>\<open>mqtt.error_string(res)\<close>.
\<close>

record connect_env =
  user_name :: pystr
  token_check :: "exn + (json \<times> pystr)"
  is_connected :: "exn + bool"
  connect_reply :: "exn + (int \<times> pystr)"

definition conn_result :: "int \<Rightarrow> pystr \<Rightarrow> response" where
  "conn_result code msg = \<lparr>status = code, message = msg\<rparr>"

definition validate_Token :: "connect \<Rightarrow> connect_env \<Rightarrow> (json \<times> pystr) \<times> event list" where
  "validate_Token st env =
     (case token_check env of
        Inr res \<Rightarrow> (res, [])
      | Inl ex \<Rightarrow> ((JBool False, str_exn ex), notify st (- 1) (str_exn ex)))"

definition is_host_connected :: "connect \<Rightarrow> connect_env \<Rightarrow> bool \<times> event list" where
  "is_host_connected st env =
     (case is_connected env of
        Inr b \<Rightarrow> (b, [])
      | Inl ex \<Rightarrow> (False, notify st (- 1) (str_exn ex)))"

text \<open>\<^verbatim>\<open>"OPENID~~" + token + "~"\<close>\<close>

fun password_of :: "json \<Rightarrow> exn + pystr" where
  "password_of (JStr t) = Inr (lit ''OPENID~~'' @ t @ lit ''~'')"
| "password_of v =
     Inl (TypeError (lit ''can only concatenate str (not '' @ [34] @ type_name v @ [34]
                       @ lit '') to str''))"

definition connect_try ::
  "connect \<Rightarrow> request \<Rightarrow> connect_env \<Rightarrow> event list \<times> (exn + response)" where
  "connect_try st conn_req env =
     (case conn_req of
        Empty \<Rightarrow> ([], Inr (conn_result 101 (lit ''Request cannot be null'')))
      | Malformed m \<Rightarrow> ([], Inl (JSONDecodeError m))
      | Parsed req_data \<Rightarrow>
         (case py_getitem req_data (lit ''token'') of
            Inl e \<Rightarrow> ([], Inl e)
          | Inr token \<Rightarrow>
             (case validate_Token st env of
                (valRes, evs1) \<Rightarrow>
                  if fst valRes \<noteq> JStr (lit ''Success'')
                  then (evs1, Inr (conn_result 1 (snd valRes)))
                  else
                    (case is_host_connected st env of
                       (already, evs2) \<Rightarrow>
                         if already
                         then (evs1 @ [MqttBind] @ evs2,
                               Inr (conn_result 105 (lit ''Client is already connected'')))
                         else
                           (case password_of token of
                              Inl e \<Rightarrow> (evs1 @ [MqttBind] @ evs2, Inl e)
                            | Inr password \<Rightarrow>
                               (let evs3 = evs1 @ [MqttBind] @ evs2
                                             @ [MqttCredentials (user_name env) password]
                                in case py_getitem req_data (lit ''host'') of
                                     Inl e \<Rightarrow> (evs3, Inl e)
                                   | Inr host \<Rightarrow>
                                      (case py_getitem req_data (lit ''port'') of
                                         Inl e \<Rightarrow> (evs3, Inl e)
                                       | Inr port \<Rightarrow>
                                          (case connect_reply env of
                                             Inl e \<Rightarrow> (evs3 @ [MqttConnect host port], Inl e)
                                           | Inr (rc, text) \<Rightarrow>
                                               (evs3 @ [MqttConnect host port]
                                                  @ (if rc = 0 then [MqttLoopStart] else []),
                                                Inr (conn_result rc text))))))))))"

text \<open>\<^verbatim>\<open>type(ex).__name__\<close>\<close>

fun class_name :: "exn \<Rightarrow> pystr" where
  "class_name (JSONDecodeError m) = lit ''JSONDecodeError''"
| "class_name (KeyError k) = lit ''KeyError''"
| "class_name (TypeError m) = lit ''TypeError''"
| "class_name (IndexError m) = lit ''IndexError''"
| "class_name (AttributeError m) = lit ''AttributeError''"
| "class_name (ValueError m) = lit ''ValueError''"
| "class_name (OSError e m) = lit ''OSError''"
| "class_name (OtherException m) = lit ''Exception''"

text \<open>
  The \<^verbatim>\<open>errno\<close> attribute of an exception: \<open>None\<close> when its class has no such attribute,
  so that reading it raises \<^verbatim>\<open>AttributeError\<close>.
\<close>

fun errno_attr :: "exn \<Rightarrow> int option option" where
  "errno_attr (OSError e m) = Some e"
| "errno_attr ex = None"

text \<open>
  The last \<^verbatim>\<open>except\<close> clause of \<^verbatim>\<open>connect_host\<close>. It reads \<^verbatim>\<open>ex.errno\<close> of whatever it
  caught, and in the branch for 11001 it calls the error callback without testing it.
\<close>

definition connect_except :: "connect \<Rightarrow> exn \<Rightarrow> event list \<times> (exn + response)" where
  "connect_except st ex =
     (case errno_attr ex of
        None \<Rightarrow>
          ([], Inl (AttributeError (quoted (class_name ex) @ lit '' object has no attribute ''
                                      @ quoted (lit ''errno''))))
      | Some errno \<Rightarrow>
          if errno = Some 11001 then
            (case on_error st of
               None \<Rightarrow>
                 ([], Inl (TypeError (quoted (lit ''NoneType'') @ lit '' object is not callable'')))
             | Some cb \<Rightarrow>
                 ([ErrorCb cb 11001 (lit ''Invalid host name'')],
                  Inr (conn_result 11001 (lit ''Invalid host name''))))
          else (notify st (- 1) (str_exn ex), Inr (conn_result (- 1) (str_exn ex))))"

definition connect_host ::
  "connect \<Rightarrow> request \<Rightarrow> connect_env \<Rightarrow> connect \<times> event list \<times> (exn + response)" where
  "connect_host st conn_req env =
     (case connect_try st conn_req env of
        (evs, Inr r) \<Rightarrow> (st, evs, Inr r)
      | (evs, Inl (JSONDecodeError m)) \<Rightarrow>
          (st, evs @ notify st (- 1) (error_text (JSONDecodeError m)),
           Inr (conn_result (- 1) (error_text (JSONDecodeError m))))
      | (evs, Inl (KeyError k)) \<Rightarrow>
          (st, evs @ notify st (- 1) (error_text (KeyError k)),
           Inr (conn_result (- 1) (error_text (KeyError k))))
      | (evs, Inl ex) \<Rightarrow>
          (case connect_except st ex of (evs', r) \<Rightarrow> (st, evs @ evs', r)))"


section \<open>The session after construction\<close>

text \<open>The fields as \<^verbatim>\<open>__init__\<close> leaves them.\<close>

definition initial :: connect where
  "initial = \<lparr>topic_handler = Map.empty, subscriptions = Map.empty, count = 0,
              on_acknowledge_response = None, on_error = None\<rparr>"

text \<open>A topic in which the version marker occurs.\<close>

definition has_marker :: "pystr \<Rightarrow> bool" where
  "has_marker t \<longleftrightarrow> (\<exists>p s. t = p @ marker @ s)"

section \<open>The pattern and the grammar\<close>

lemma in_class_pattern:
  "in_class [(48, 57), (97, 122), (47, 47)]
   = (\<lambda>c. (48 \<le> c \<and> c \<le> 57) \<or> (97 \<le> c \<and> c \<le> 122) \<or> c = 47)"
  by (rule ext) (auto simp: in_class_def)

lemma takeWhile_full: "length (takeWhile P s) = length s \<longleftrightarrow> list_all P s"
  by (induction s) (auto simp: list_all_iff)

lemma fullmatch_pattern: "fullmatch pattern s \<longleftrightarrow> matches_grammar s"
proof -
  let ?P = "\<lambda>c::nat. (48 \<le> c \<and> c \<le> 57) \<or> (97 \<le> c \<and> c \<le> 122) \<or> c = 47"
  let ?n = "length (takeWhile ?P s)"
  have le: "?n \<le> length s" by (rule length_takeWhile_le)
  have "fullmatch pattern s \<longleftrightarrow> (\<exists>j\<in>{1..<Suc ?n}. length s \<in> set (ends Dollar s j))"
    unfolding fullmatch_def pattern_def
    by (simp add: in_class_pattern del: ends.simps(2) upt_Suc)
  also have "\<dots> \<longleftrightarrow> (1 \<le> length s \<and> length s \<le> ?n)"
    by auto
  also have "\<dots> \<longleftrightarrow> (s \<noteq> [] \<and> ?n = length s)"
    using le by (cases s) auto
  also have "\<dots> \<longleftrightarrow> matches_grammar s"
    by (simp add: matches_grammar_def takeWhile_full)
  finally show ?thesis .
qed

lemma fullmatch_pattern_fun: "fullmatch pattern = matches_grammar"
  by (rule ext) (rule fullmatch_pattern)

section \<open>Batches of suffix strings\<close>

lemma subscription_loop_strs:
  "subscription_loop p (map JStr ss) valid failed =
     (valid @ map (\<lambda>s. (p @ s, 0)) (filter (fullmatch pattern) ss),
      failed @ map invalid_topic (filter (\<lambda>s. \<not> fullmatch pattern s) ss), None)"
  by (induction ss arbitrary: valid failed) simp_all

lemma unsubscribe_loop_strs:
  "unsubscribe_loop p (map JStr ss) valid failed =
     (valid @ map (\<lambda>s. p @ s) (filter (fullmatch pattern) ss),
      failed @ map invalid_topic (filter (\<lambda>s. \<not> fullmatch pattern s) ss), None)"
  by (induction ss arbitrary: valid failed) simp_all

lemma within_bounds_list:
  "within_bounds (JList xs) = Inr (xs \<noteq> [] \<and> length xs \<le> 1024)"
  by (simp add: within_bounds_def)

lemma build_subscription_strs:
  assumes "py_getitem d (lit ''subscriptionList'') = Inr (JList (map JStr ss))"
  shows "build_subscription_topics st d p =
     (map (\<lambda>s. (p @ s, 0)) (filter (fullmatch pattern) ss),
      map invalid_topic (filter (\<lambda>s. \<not> fullmatch pattern s) ss), [])"
  using assms by (simp add: build_subscription_topics_def subscription_loop_strs)

lemma build_unsubscribe_strs:
  assumes "py_getitem d (lit ''unsubscriptionList'') = Inr (JList (map JStr ss))"
  shows "build_unsubscribe_options st d p =
     (map (\<lambda>s. p @ s) (filter (fullmatch pattern) ss),
      map invalid_topic (filter (\<lambda>s. \<not> fullmatch pattern s) ss), [])"
  using assms by (simp add: build_unsubscribe_options_def unsubscribe_loop_strs)

lemma subscribe_strs:
  assumes d: "py_getitem d (lit ''subscriptionList'') = Inr (JList (map JStr ss))"
      and ne: "ss \<noteq> []" and le: "length ss \<le> 1024"
  shows "subscribe_try st (Parsed d) p reply =
     (let valid_topics = map (\<lambda>s. (p @ s, 0)) (filter (fullmatch pattern) ss);
          failed = map invalid_topic (filter (\<lambda>s. \<not> fullmatch pattern s) ss)
      in if valid_topics \<noteq> [] then
           (case reply of
              Inl e \<Rightarrow> (st, [MqttSubscribe valid_topics], Inl e)
            | Inr (rc, text, mid) \<Rightarrow>
                if rc = 0 then
                  (st\<lparr>subscriptions := (subscriptions st)(mid \<mapsto> valid_topics)\<rparr>,
                   [MqttSubscribe valid_topics],
                   Inr (feed_result rc
                     (if length failed > 0 then lit ''Subscription partially sent'' else text)
                     failed))
                else (st, [MqttSubscribe valid_topics], Inr (feed_result rc text failed)))
         else (st, [], Inr (feed_result 103 (lit ''Subscripton failed'') failed)))"
  using ne le
  by (simp add: subscribe_try_def d within_bounds_list build_subscription_strs[OF d] Let_def
           split: sum.splits)


section \<open>Request checks that come before validation\<close>

text \<open>
  Claim C7. For every subscribe and unsubscribe operation, a null or empty request gives
  status 101, and a request whose topic list has more than 1024 entries gives status 102;
  in both cases the operation makes no call into the MQTT client (it produces no event
  at all) and leaves the session as it was.
\<close>

theorem null_or_oversized_request:
  assumes "py_getitem req_data (lit ''subscriptionList'') = Inr (JList xs)"
      and "py_getitem req_data' (lit ''unsubscriptionList'') = Inr (JList ys)"
      and "1024 < length xs" and "1024 < length ys"
  shows "subscribe_category c st Empty reply =
           (st, [], Inr \<lparr>status = 101, message = lit ''Request cannot be null'',
                        failedTopics = []\<rparr>)
       \<and> unsubscribe_category c st Empty reply =
           (st, [], Inr \<lparr>status = 101, message = lit ''Request cannot be null'',
                        failedTopics = []\<rparr>)
       \<and> subscribe_category c st (Parsed req_data) reply =
           (st, [], Inr \<lparr>status = 102,
                        message = lit ''TopicList cannot be null and no. of topics should be less than 1024'',
                        failedTopics = []\<rparr>)
       \<and> unsubscribe_category c st (Parsed req_data') reply =
           (st, [], Inr \<lparr>status = 102,
                        message = lit ''TopicList cannot be null and no. of topics should be less than 1024'',
                        failedTopics = []\<rparr>)"
  using assms
  by (simp add: subscribe_category_def unsubscribe_category_def subscribe_def unsubscribe_def
        subscribe_try_def unsubscribe_try_def within_bounds_list feed_result_def)

theorem null_or_oversized_request_witness:
  "py_getitem (JObj [(lit ''subscriptionList'', JList (replicate 1025 (JStr (lit ''nseeq/2885''))))])
       (lit ''subscriptionList'') = Inr (JList (replicate 1025 (JStr (lit ''nseeq/2885''))))
   \<and> py_getitem (JObj [(lit ''unsubscriptionList'', JList (replicate 1025 (JStr (lit ''nseeq/2885''))))])
       (lit ''unsubscriptionList'') = Inr (JList (replicate 1025 (JStr (lit ''nseeq/2885''))))
   \<and> 1024 < length (replicate 1025 (JStr (lit ''nseeq/2885'')))
   \<and> subscribe_category Feed initial Empty (Inr (0, lit ''No error.'', 1)) =
           (initial, [], Inr \<lparr>status = 101, message = lit ''Request cannot be null'',
                             failedTopics = []\<rparr>)
   \<and> unsubscribe_category Feed initial Empty (Inr (0, lit ''No error.'', 1)) =
           (initial, [], Inr \<lparr>status = 101, message = lit ''Request cannot be null'',
                             failedTopics = []\<rparr>)
   \<and> subscribe_category Feed initial
        (Parsed (JObj [(lit ''subscriptionList'', JList (replicate 1025 (JStr (lit ''nseeq/2885''))))]))
        (Inr (0, lit ''No error.'', 1)) =
           (initial, [], Inr \<lparr>status = 102,
                        message = lit ''TopicList cannot be null and no. of topics should be less than 1024'',
                        failedTopics = []\<rparr>)
   \<and> unsubscribe_category Feed initial
        (Parsed (JObj [(lit ''unsubscriptionList'', JList (replicate 1025 (JStr (lit ''nseeq/2885''))))]))
        (Inr (0, lit ''No error.'', 1)) =
           (initial, [], Inr \<lparr>status = 102,
                        message = lit ''TopicList cannot be null and no. of topics should be less than 1024'',
                        failedTopics = []\<rparr>)"
proof -
  let ?xs = "replicate 1025 (JStr (lit ''nseeq/2885''))"
  have h1: "py_getitem (JObj [(lit ''subscriptionList'', JList ?xs)]) (lit ''subscriptionList'')
            = Inr (JList ?xs)" by simp
  have h2: "py_getitem (JObj [(lit ''unsubscriptionList'', JList ?xs)]) (lit ''unsubscriptionList'')
            = Inr (JList ?xs)" by simp
  have h3: "1024 < length ?xs" by simp
  show ?thesis
    using h1 h2 h3
      null_or_oversized_request [OF h1 h2 h3 h3, of Feed initial "Inr (0, lit ''No error.'', 1)"]
    by blast
qed

section \<open>A batch without a valid suffix\<close>

text \<open>
  Claim C9. When no suffix of a subscribe batch passes validation, the request fails as a
  whole: the status is 103, the client's subscribe is not called (there is no event),
  and \<open>failedTopics\<close> lists every suffix of the batch, unchanged and in order, each with
  result code 104.
\<close>

theorem empty_valid_set_fails:
  assumes "py_getitem req_data (lit ''subscriptionList'') = Inr (JList (map JStr suffixes))"
      and "suffixes \<noteq> []" and "length suffixes \<le> 1024"
      and "filter (fullmatch pattern) suffixes = []"
  shows "subscribe_category c st (Parsed req_data) reply =
           (st, [],
            Inr \<lparr>status = 103, message = lit ''Subscripton failed'',
                 failedTopics =
                   map (\<lambda>s. \<lparr>resultCode = 104, result = lit ''Invalid topic'', topic = s\<rparr>)
                     suffixes\<rparr>)"
proof -
  have "filter (\<lambda>s. \<not> fullmatch pattern s) suffixes = suffixes"
    using assms(4) by (simp add: filter_empty_conv)
  then show ?thesis
    by (simp add: subscribe_category_def subscribe_def subscribe_strs[OF assms(1-3)] assms(4)
          feed_result_def invalid_topic_def [abs_def])
qed

theorem empty_valid_set_fails_witness:
  "py_getitem (JObj [(lit ''subscriptionList'', JList (map JStr [lit ''NSEEQ/2885'', lit '''']))])
      (lit ''subscriptionList'') = Inr (JList (map JStr [lit ''NSEEQ/2885'', lit '''']))
   \<and> filter (fullmatch pattern) [lit ''NSEEQ/2885'', lit ''''] = []
   \<and> subscribe_category Feed initial
        (Parsed (JObj [(lit ''subscriptionList'', JList (map JStr [lit ''NSEEQ/2885'', lit '''']))]))
        (Inr (0, lit ''No error.'', 1)) =
       (initial, [],
        Inr \<lparr>status = 103, message = lit ''Subscripton failed'',
             failedTopics =
               map (\<lambda>s. \<lparr>resultCode = 104, result = lit ''Invalid topic'', topic = s\<rparr>)
                 [lit ''NSEEQ/2885'', lit '''']\<rparr>)"
proof -
  let ?ss = "[lit ''NSEEQ/2885'', lit '''']"
  have h1: "py_getitem (JObj [(lit ''subscriptionList'', JList (map JStr ?ss))])
      (lit ''subscriptionList'') = Inr (JList (map JStr ?ss))" by simp
  have h2: "?ss \<noteq> []" by simp
  have h3: "length ?ss \<le> 1024" by simp
  have h4: "filter (fullmatch pattern) ?ss = []"
    by (simp add: fullmatch_pattern matches_grammar_def lit_def)
  show ?thesis
    using h1 h4 empty_valid_set_fails [OF h1 h2 h3 h4, of Feed initial "Inr (0, lit ''No error.'', 1)"]
    by blast
qed

section \<open>Validation of a batch\<close>

text \<open>
  Claim C4, as amended. The pattern accepts a string exactly when the string is a
  non-empty sequence of ASCII digits, lowercase ASCII letters and slashes. For a
  subscribe batch of 1 to 1024 suffix strings: when no suffix is valid there is no client
  call and the result has status 103; otherwise the client's subscribe is called once,
  with exactly the valid suffixes, each behind the category's namespace and with QoS 0,
  in submission order. When that call returns, whatever its status, \<open>failedTopics\<close>
  lists exactly the invalid suffixes, unchanged, in order, each with result code 104. When
  that call raises, the result has status \<open>-1\<close> and its \<open>failedTopics\<close> is empty, and
  the message (for a \<^verbatim>\<open>ValueError\<close>, its text) also goes to the error callback if one is set.
\<close>

theorem subscribe_batch_filter:
  assumes "py_getitem req_data (lit ''subscriptionList'') = Inr (JList (map JStr suffixes))"
      and "suffixes \<noteq> []" and "length suffixes \<le> 1024"
  shows "(\<forall>s. fullmatch pattern s \<longleftrightarrow> matches_grammar s)
       \<and> (filter matches_grammar suffixes = [] \<longrightarrow>
            subscribe_category c st (Parsed req_data) reply =
              (st, [],
               Inr \<lparr>status = 103, message = lit ''Subscripton failed'',
                    failedTopics =
                      map (\<lambda>s. \<lparr>resultCode = 104, result = lit ''Invalid topic'', topic = s\<rparr>)
                        (filter (\<lambda>s. \<not> matches_grammar s) suffixes)\<rparr>))
       \<and> (filter matches_grammar suffixes \<noteq> [] \<and> reply = Inr (rc, msg, mid) \<longrightarrow>
            subscribe_category c st (Parsed req_data) reply =
              ((if rc = 0
                then st\<lparr>subscriptions := (subscriptions st)
                          (mid \<mapsto> map (\<lambda>s. (topic_of c @ s, 0)) (filter matches_grammar suffixes))\<rparr>
                else st),
               [MqttSubscribe (map (\<lambda>s. (topic_of c @ s, 0)) (filter matches_grammar suffixes))],
               Inr \<lparr>status = rc,
                    message =
                      (if rc = 0 \<and> filter (\<lambda>s. \<not> matches_grammar s) suffixes \<noteq> []
                       then lit ''Subscription partially sent'' else msg),
                    failedTopics =
                      map (\<lambda>s. \<lparr>resultCode = 104, result = lit ''Invalid topic'', topic = s\<rparr>)
                        (filter (\<lambda>s. \<not> matches_grammar s) suffixes)\<rparr>))
       \<and> (filter matches_grammar suffixes \<noteq> [] \<and> reply = Inl (ValueError msg) \<longrightarrow>
            subscribe_category c st (Parsed req_data) reply =
              (st,
               [MqttSubscribe (map (\<lambda>s. (topic_of c @ s, 0)) (filter matches_grammar suffixes))]
                 @ (case on_error st of None \<Rightarrow> [] | Some cb \<Rightarrow> [ErrorCb cb (- 1) msg]),
               Inr \<lparr>status = - 1, message = msg, failedTopics = []\<rparr>))
       \<and> (filter matches_grammar suffixes \<noteq> [] \<and> reply = Inl ex \<longrightarrow>
            (\<exists>m. subscribe_category c st (Parsed req_data) reply =
              (st,
               [MqttSubscribe (map (\<lambda>s. (topic_of c @ s, 0)) (filter matches_grammar suffixes))]
                 @ (case on_error st of None \<Rightarrow> [] | Some cb \<Rightarrow> [ErrorCb cb (- 1) m]),
               Inr \<lparr>status = - 1, message = m, failedTopics = []\<rparr>)))"
proof -
  note eq = subscribe_strs [OF assms, unfolded fullmatch_pattern_fun fullmatch_pattern]
  note defs = subscribe_category_def subscribe_def eq Let_def feed_result_def
    invalid_topic_def [abs_def] notify_def
  have A: "\<forall>s. fullmatch pattern s \<longleftrightarrow> matches_grammar s"
    by (simp add: fullmatch_pattern)
  have B: "filter matches_grammar suffixes = [] \<longrightarrow>
            subscribe_category c st (Parsed req_data) reply =
              (st, [],
               Inr \<lparr>status = 103, message = lit ''Subscripton failed'',
                    failedTopics =
                      map (\<lambda>s. \<lparr>resultCode = 104, result = lit ''Invalid topic'', topic = s\<rparr>)
                        (filter (\<lambda>s. \<not> matches_grammar s) suffixes)\<rparr>)"
    by (simp add: defs)
  have C: "filter matches_grammar suffixes \<noteq> [] \<and> reply = Inr (rc, msg, mid) \<longrightarrow>
            subscribe_category c st (Parsed req_data) reply =
              ((if rc = 0
                then st\<lparr>subscriptions := (subscriptions st)
                          (mid \<mapsto> map (\<lambda>s. (topic_of c @ s, 0)) (filter matches_grammar suffixes))\<rparr>
                else st),
               [MqttSubscribe (map (\<lambda>s. (topic_of c @ s, 0)) (filter matches_grammar suffixes))],
               Inr \<lparr>status = rc,
                    message =
                      (if rc = 0 \<and> filter (\<lambda>s. \<not> matches_grammar s) suffixes \<noteq> []
                       then lit ''Subscription partially sent'' else msg),
                    failedTopics =
                      map (\<lambda>s. \<lparr>resultCode = 104, result = lit ''Invalid topic'', topic = s\<rparr>)
                        (filter (\<lambda>s. \<not> matches_grammar s) suffixes)\<rparr>)"
    by (simp add: defs)
  have D: "filter matches_grammar suffixes \<noteq> [] \<and> reply = Inl (ValueError msg) \<longrightarrow>
            subscribe_category c st (Parsed req_data) reply =
              (st,
               [MqttSubscribe (map (\<lambda>s. (topic_of c @ s, 0)) (filter matches_grammar suffixes))]
                 @ (case on_error st of None \<Rightarrow> [] | Some cb \<Rightarrow> [ErrorCb cb (- 1) msg]),
               Inr \<lparr>status = - 1, message = msg, failedTopics = []\<rparr>)"
    by (simp add: defs split: option.splits)
  have E: "filter matches_grammar suffixes \<noteq> [] \<and> reply = Inl ex \<longrightarrow>
            (\<exists>m. subscribe_category c st (Parsed req_data) reply =
              (st,
               [MqttSubscribe (map (\<lambda>s. (topic_of c @ s, 0)) (filter matches_grammar suffixes))]
                 @ (case on_error st of None \<Rightarrow> [] | Some cb \<Rightarrow> [ErrorCb cb (- 1) m]),
               Inr \<lparr>status = - 1, message = m, failedTopics = []\<rparr>))"
    by (simp add: defs)
  from A B C D E show ?thesis by blast
qed

theorem subscribe_batch_filter_witness:
  "py_getitem (JObj [(lit ''subscriptionList'', JList (map JStr [lit ''nseeq/2885'', lit ''NSE EQ'']))])
      (lit ''subscriptionList'') = Inr (JList (map JStr [lit ''nseeq/2885'', lit ''NSE EQ'']))
   \<and> filter matches_grammar [lit ''nseeq/2885'', lit ''NSE EQ''] = [lit ''nseeq/2885'']
   \<and> subscribe_category Feed initial
        (Parsed (JObj [(lit ''subscriptionList'', JList (map JStr [lit ''nseeq/2885'', lit ''NSE EQ'']))]))
        (Inr (0, lit ''No error.'', 1)) =
       (initial\<lparr>subscriptions := (subscriptions initial)
                  (1 \<mapsto> [(mw_topic @ lit ''nseeq/2885'', 0)])\<rparr>,
        [MqttSubscribe [(mw_topic @ lit ''nseeq/2885'', 0)]],
        Inr \<lparr>status = 0, message = lit ''Subscription partially sent'',
             failedTopics =
               [\<lparr>resultCode = 104, result = lit ''Invalid topic'', topic = lit ''NSE EQ''\<rparr>]\<rparr>)"
proof -
  let ?ss = "[lit ''nseeq/2885'', lit ''NSE EQ'']"
  have h1: "py_getitem (JObj [(lit ''subscriptionList'', JList (map JStr ?ss))])
      (lit ''subscriptionList'') = Inr (JList (map JStr ?ss))" by simp
  have h2: "?ss \<noteq> []" by simp
  have h3: "length ?ss \<le> 1024" by simp
  have v: "filter matches_grammar ?ss = [lit ''nseeq/2885'']"
    by (simp add: matches_grammar_def lit_def)
  have r: "filter (\<lambda>s. \<not> matches_grammar s) ?ss = [lit ''NSE EQ'']"
    by (simp add: matches_grammar_def lit_def)
  show ?thesis
    using h1 v r
      subscribe_batch_filter [OF h1 h2 h3, of Feed initial "Inr (0, lit ''No error.'', 1)" 0
         "lit ''No error.''" 1]
    by simp
qed

text \<open>
  The claim as first stated fails where the client's subscribe raises (paho does for a
  filter longer than 65535 bytes): the suffix \<^verbatim>\<open>BAD\<close> was rejected, and the response does
  not list it.
\<close>

theorem subscribe_batch_filter_counterexample:
  "\<not> matches_grammar (lit ''BAD'')
   \<and> snd (snd (subscribe_category Feed initial
        (Parsed (JObj [(lit ''subscriptionList'',
                        JList [JStr (replicate 65536 97), JStr (lit ''BAD'')])]))
        (Inl (ValueError (lit ''Invalid subscription filter.'')))))
     = Inr \<lparr>status = - 1, message = lit ''Invalid subscription filter.'', failedTopics = []\<rparr>"
proof -
  let ?ss = "[replicate 65536 97, lit ''BAD'']"
  have h1: "py_getitem (JObj [(lit ''subscriptionList'',
               JList [JStr (replicate 65536 97), JStr (lit ''BAD'')])])
      (lit ''subscriptionList'') = Inr (JList (map JStr ?ss))" by simp
  have h2: "?ss \<noteq> []" by simp
  have h3: "length ?ss \<le> 1024" by simp
  have bad: "\<not> matches_grammar (lit ''BAD'')"
    by (simp add: matches_grammar_def lit_def)
  have long: "matches_grammar (replicate 65536 97)"
    by (simp add: matches_grammar_def list_all_iff)
  have fm: "fullmatch pattern (replicate 65536 97)" "\<not> fullmatch pattern (lit ''BAD'')"
    using bad long by (simp_all add: fullmatch_pattern del: replicate.simps)
  show ?thesis
    using bad
    by (simp add: subscribe_category_def subscribe_def subscribe_strs [OF h1 h2 h3] fm Let_def
          feed_result_def)
qed

section \<open>Topics that carry the version marker\<close>

lemma marker_eq: "marker = [118, 49, 47]"
  by (simp add: marker_def lit_def)

lemma re_split_nonempty: "re_split sep s \<noteq> []"
  by (induction s) (auto split: list.splits)

lemma re_split_marker_here: "re_split marker (marker @ s) = [] # re_split marker s"
  by (simp add: marker_eq)

lemma re_split_two: "\<exists>x y ys. re_split marker (p @ marker @ s) = x # y # ys"
proof (induction p)
  case Nil
  obtain y ys where "re_split marker s = y # ys"
    using re_split_nonempty[of marker s] by (cases "re_split marker s") auto
  then show ?case by (simp add: re_split_marker_here)
next
  case (Cons c p)
  then obtain x y ys where IH: "re_split marker (p @ marker @ s) = x # y # ys" by blast
  show ?case
  proof (cases "take (length marker) ((c # p) @ marker @ s) = marker")
    case True
    obtain y ys where "re_split marker (drop (length marker - 1) (p @ marker @ s)) = y # ys"
      using re_split_nonempty[of marker] by (meson list.exhaust)
    with True show ?thesis by simp
  next
    case False
    with IH show ?thesis by simp
  qed
qed

lemma index1_marker: "\<exists>y. index1 (re_split marker (p @ marker @ s)) = Inr y"
  using re_split_two[of p s] by auto

lemma topic_of_marker: "\<exists>p. topic_of c = p @ marker"
proof (cases c)
  case Feed
  have "topic_of Feed = lit ''prod/marketfeed/mw/'' @ marker"
    by (simp add: mw_topic_def lit_def marker_def)
  with Feed show ?thesis by blast
next
  case Index
  have "topic_of Index = lit ''prod/marketfeed/index/'' @ marker"
    by (simp add: index_topic_def lit_def marker_def)
  with Index show ?thesis by blast
next
  case OpenInterest
  have "topic_of OpenInterest = lit ''prod/marketfeed/oi/'' @ marker"
    by (simp add: oi_topic_def lit_def marker_def)
  with OpenInterest show ?thesis by blast
next
  case MarketStatus
  have "topic_of MarketStatus = lit ''prod/marketfeed/marketstatus/'' @ marker"
    by (simp add: market_status_def lit_def marker_def)
  with MarketStatus show ?thesis by blast
next
  case Lpp
  have "topic_of Lpp = lit ''prod/marketfeed/lpp/'' @ marker"
    by (simp add: lpp_def lit_def marker_def)
  with Lpp show ?thesis by blast
next
  case High52Week
  have "topic_of High52Week = lit ''prod/marketfeed/high52week/'' @ marker"
    by (simp add: high_52_week_def lit_def marker_def)
  with High52Week show ?thesis by blast
next
  case Low52Week
  have "topic_of Low52Week = lit ''prod/marketfeed/low52week/'' @ marker"
    by (simp add: low_52_week_def lit_def marker_def)
  with Low52Week show ?thesis by blast
next
  case UpperCircuit
  have "topic_of UpperCircuit = lit ''prod/marketfeed/uppercircuit/'' @ marker"
    by (simp add: upper_circuit_def lit_def marker_def)
  with UpperCircuit show ?thesis by blast
next
  case LowerCircuit
  have "topic_of LowerCircuit = lit ''prod/marketfeed/lowercircuit/'' @ marker"
    by (simp add: lower_circuit_def lit_def marker_def)
  with LowerCircuit show ?thesis by blast
next
  case OrderUpdates
  have "topic_of OrderUpdates = lit ''prod/updates/order/'' @ marker"
    by (simp add: order_updates_def lit_def marker_def)
  with OrderUpdates show ?thesis by blast
next
  case TradeUpdates
  have "topic_of TradeUpdates = lit ''prod/updates/trade/'' @ marker"
    by (simp add: trade_updates_def lit_def marker_def)
  with TradeUpdates show ?thesis by blast
qed

lemma has_marker_topic_of: "has_marker (topic_of c @ s)"
proof -
  obtain p where "topic_of c = p @ marker" using topic_of_marker[of c] by blast
  then have "topic_of c @ s = p @ marker @ s" by simp
  then show ?thesis unfolding has_marker_def by blast
qed

lemma subscription_loop_marker:
  assumes "subscription_loop (topic_of c) items valid failed = (valid', failed', eo)"
      and "\<forall>t\<in>set valid. has_marker (fst t)"
    shows "\<forall>t\<in>set valid'. has_marker (fst t)"
  using assms
proof (induction items arbitrary: valid failed)
  case Nil
  then show ?case by simp
next
  case (Cons t ts)
  show ?case
  proof (cases t)
    case (JStr s)
    show ?thesis
    proof (cases "fullmatch pattern s")
      case True
      with Cons.prems JStr
      have "subscription_loop (topic_of c) ts (valid @ [(topic_of c @ s, 0)]) failed = (valid', failed', eo)"
        by simp
      moreover have "\<forall>t\<in>set (valid @ [(topic_of c @ s, 0)]). has_marker (fst t)"
        using Cons.prems(2) by (simp add: has_marker_topic_of)
      ultimately show ?thesis by (rule Cons.IH)
    next
      case False
      with Cons.prems JStr
      have "subscription_loop (topic_of c) ts valid (failed @ [invalid_topic s])
            = (valid', failed', eo)"
        by simp
      then show ?thesis using Cons.prems(2) by (rule Cons.IH)
    qed
  qed (use Cons.prems in auto)
qed

lemma build_subscription_marker:
  assumes "build_subscription_topics st d (topic_of c) = (valid, failed, evs)"
  shows "\<forall>t\<in>set valid. has_marker (fst t)"
proof (cases "py_getitem d (lit ''subscriptionList'')")
  case (Inl e)
  with assms show ?thesis by (simp add: build_subscription_topics_def)
next
  case (Inr v)
  show ?thesis
  proof (cases "py_iter v")
    case (Inl e)
    with Inr assms show ?thesis by (simp add: build_subscription_topics_def)
  next
    case items: (Inr items)
    obtain valid' failed' eo where
      loop: "subscription_loop (topic_of c) items [] [] = (valid', failed', eo)"
      by (cases "subscription_loop (topic_of c) items [] []") auto
    have "\<forall>t\<in>set valid'. has_marker (fst t)"
      using subscription_loop_marker [OF loop] by simp
    moreover have "valid = valid'"
      using assms Inr items loop
      by (cases eo) (simp_all add: build_subscription_topics_def)
    ultimately show ?thesis by simp
  qed
qed

lemma ack_loop_tuples:
  assumes "\<forall>t\<in>set topics. has_marker (fst t)"
  shows "\<exists>ls'. ack_loop (zip rcs (map (\<lambda>tq. Tuple (fst tq) (snd tq)) topics)) ls = Inr ls'"
  using assms
proof (induction topics arbitrary: rcs ls)
  case Nil
  then show ?case by simp
next
  case (Cons tq topics)
  show ?case
  proof (cases rcs)
    case Nil
    then show ?thesis by simp
  next
    case (Cons rc rcs')
    from Cons.prems obtain p s where "fst tq = p @ marker @ s"
      by (auto simp: has_marker_def)
    then obtain y where "index1 (re_split marker (fst tq)) = Inr y"
      using index1_marker[of p s] by auto
    moreover have "\<forall>t\<in>set topics. has_marker (fst t)" using Cons.prems by simp
    ultimately show ?thesis using Cons Cons.IH by simp
  qed
qed

text \<open>An acknowledgement for a stored id whose topics all carry the marker removes the entry.\<close>

lemma on_subscribe_known:
  assumes "subscriptions st mid = Some topics"
      and "\<forall>t\<in>set topics. has_marker (fst t)"
  shows "\<exists>evs. on_subscribe st mid rcs =
           (st\<lparr>subscriptions := (subscriptions st)(mid := None)\<rparr>, evs)"
proof -
  obtain ls where "ack_loop (zip rcs (map (\<lambda>tq. Tuple (fst tq) (snd tq)) topics)) [] = Inr ls"
    using ack_loop_tuples [OF assms(2)] by blast
  then show ?thesis
    using assms(1)
    by (cases rcs) (simp_all add: on_subscribe_def on_subscribe_try_def pending_items_def Let_def)
qed

lemma ack_loop_unknown:
  "rcs \<noteq> [] \<Longrightarrow>
   ack_loop (zip rcs [PStr (lit ''Unknown''), PInt 0]) [] =
     Inl (IndexError (lit ''list index out of range''))"
  by (cases rcs) (auto simp: lit_def marker_def)

lemma on_subscribe_unknown:
  assumes "subscriptions st mid = None"
  shows "on_subscribe st mid rcs =
           (st, notify st (- 1)
                  (if rcs = [] then str_int mid else lit ''list index out of range''))"
proof (cases rcs)
  case Nil
  with assms show ?thesis
    by (simp add: on_subscribe_def on_subscribe_try_def pending_items_def Let_def)
next
  case (Cons rc rest)
  then have "ack_loop (zip rcs [PStr (lit ''Unknown''), PInt 0]) [] =
     Inl (IndexError (lit ''list index out of range''))"
    by (intro ack_loop_unknown) simp
  with assms Cons show ?thesis
    by (simp add: on_subscribe_def on_subscribe_try_def pending_items_def Let_def)
qed


lemma subscribe_recorded:
  assumes "subscribe st req (topic_of c) (Inr (0, text, mid)) = (st1, evs1, Inr resp)"
      and "status resp = 0"
  shows "\<exists>topics. subscriptions st1 mid = Some topics \<and> (\<forall>t\<in>set topics. has_marker (fst t))"
proof (cases req)
  case Empty
  with assms show ?thesis by (auto simp: subscribe_def subscribe_try_def feed_result_def)
next
  case (Malformed m)
  with assms show ?thesis by (auto simp: subscribe_def subscribe_try_def feed_result_def)
next
  case (Parsed d)
  show ?thesis
  proof (cases "py_getitem d (lit ''subscriptionList'')")
    case (Inl e)
    with Parsed assms show ?thesis by (auto simp: subscribe_def subscribe_try_def feed_result_def)
  next
    case v: (Inr v)
    show ?thesis
    proof (cases "within_bounds v")
      case (Inl e)
      with v Parsed assms show ?thesis
        by (auto simp: subscribe_def subscribe_try_def feed_result_def)
    next
      case (Inr b)
      show ?thesis
      proof (cases b)
        case False
        with Inr v Parsed assms show ?thesis
          by (auto simp: subscribe_def subscribe_try_def feed_result_def)
      next
        case True
        obtain valid failed evs where
          b: "build_subscription_topics st d (topic_of c) = (valid, failed, evs)"
          by (cases "build_subscription_topics st d (topic_of c)") auto
        have m: "\<forall>t\<in>set valid. has_marker (fst t)"
          by (rule build_subscription_marker [OF b])
        show ?thesis
        proof (cases "valid = []")
          case True
          with b \<open>b\<close> Inr v Parsed assms show ?thesis
            by (auto simp: subscribe_def subscribe_try_def feed_result_def)
        next
          case False
          with b \<open>b\<close> Inr v Parsed assms(1)
          have "st1 = st\<lparr>subscriptions := (subscriptions st)(mid \<mapsto> valid)\<rparr>"
            by (auto simp: subscribe_def subscribe_try_def)
          with m show ?thesis by simp
        qed
      qed
    qed
  qed
qed

section \<open>Subscribe acknowledgements and the pending table\<close>

text \<open>
  Claim C2. After a subscribe operation of any category has recorded the message id
  \<open>mid\<close> (the client accepted the call, status 0), the first acknowledgement for \<open>mid\<close>
  removes exactly that entry, whatever reason codes it carries. An acknowledgement for an
  id that is not in the table, such as a second one for \<open>mid\<close>, changes nothing, forwards
  no acknowledgement event and at most calls the error callback; \<open>on_subscribe\<close> returns
  in every case.
\<close>

theorem subscribe_ack_removes_once:
  assumes "subscribe_category c st req (Inr (0, text, mid)) = (st1, evs1, Inr resp)"
      and "status resp = 0"
  shows "subscriptions st1 mid \<noteq> None
       \<and> (\<exists>evs. on_subscribe st1 mid rcs =
                   (st1\<lparr>subscriptions := (subscriptions st1)(mid := None)\<rparr>, evs))
       \<and> on_subscribe (st1\<lparr>subscriptions := (subscriptions st1)(mid := None)\<rparr>) mid rcs' =
           (st1\<lparr>subscriptions := (subscriptions st1)(mid := None)\<rparr>,
            notify st1 (- 1) (if rcs' = [] then str_int mid else lit ''list index out of range''))
       \<and> (\<forall>s m. subscriptions s m = None \<longrightarrow>
            on_subscribe s m rcs' =
              (s, notify s (- 1) (if rcs' = [] then str_int m else lit ''list index out of range'')))"
proof -
  obtain topics where t: "subscriptions st1 mid = Some topics"
      and m: "\<forall>t\<in>set topics. has_marker (fst t)"
    using subscribe_recorded [OF assms [unfolded subscribe_category_def]] by blast
  let ?st2 = "st1\<lparr>subscriptions := (subscriptions st1)(mid := None)\<rparr>"
  have A: "subscriptions st1 mid \<noteq> None" using t by simp
  have B: "\<exists>evs. on_subscribe st1 mid rcs = (?st2, evs)"
    by (rule on_subscribe_known [OF t m])
  have "subscriptions ?st2 mid = None" by simp
  then have "on_subscribe ?st2 mid rcs' =
      (?st2, notify ?st2 (- 1) (if rcs' = [] then str_int mid else lit ''list index out of range''))"
    by (rule on_subscribe_unknown)
  then have C: "on_subscribe ?st2 mid rcs' =
      (?st2, notify st1 (- 1) (if rcs' = [] then str_int mid else lit ''list index out of range''))"
    by (simp add: notify_def)
  have D: "\<forall>s m. subscriptions s m = None \<longrightarrow>
            on_subscribe s m rcs' =
              (s, notify s (- 1) (if rcs' = [] then str_int m else lit ''list index out of range''))"
    by (simp add: on_subscribe_unknown)
  from A B C D show ?thesis by blast
qed


theorem subscribe_ack_removes_once_witness:
  "subscribe_category Feed initial
      (Parsed (JObj [(lit ''subscriptionList'', JList [JStr (lit ''nseeq/2885'')])]))
      (Inr (0, lit ''No error.'', 7))
     = (initial\<lparr>subscriptions := (subscriptions initial)(7 \<mapsto> [(mw_topic @ lit ''nseeq/2885'', 0)])\<rparr>,
        [MqttSubscribe [(mw_topic @ lit ''nseeq/2885'', 0)]],
        Inr (feed_result 0 (lit ''No error.'') []))
   \<and> status (feed_result 0 (lit ''No error.'') []) = 0
   \<and> subscriptions initial 3 = None
   \<and> on_subscribe initial 3 [] = (initial, notify initial (- 1) (str_int 3))
   \<and> (\<exists>evs. on_subscribe
        (initial\<lparr>subscriptions := (subscriptions initial)(7 \<mapsto> [(mw_topic @ lit ''nseeq/2885'', 0)])\<rparr>)
        7 [\<lparr>code_value = 0, packetType = 9\<rparr>]
       = (initial\<lparr>subscriptions := (subscriptions initial)(7 \<mapsto> [(mw_topic @ lit ''nseeq/2885'', 0)])\<rparr>
            \<lparr>subscriptions :=
               (subscriptions (initial\<lparr>subscriptions := (subscriptions initial)(7 \<mapsto> [(mw_topic @ lit ''nseeq/2885'', 0)])\<rparr>))
               (7 := None)\<rparr>, evs))"
proof -
  let ?ss = "[lit ''nseeq/2885'']"
  let ?d = "JObj [(lit ''subscriptionList'', JList [JStr (lit ''nseeq/2885'')])]"
  let ?st1 = "initial\<lparr>subscriptions := (subscriptions initial)(7 \<mapsto> [(mw_topic @ lit ''nseeq/2885'', 0)])\<rparr>"
  have g: "py_getitem ?d (lit ''subscriptionList'') = Inr (JList (map JStr ?ss))" by simp
  have fm: "fullmatch pattern (lit ''nseeq/2885'')"
    by (simp add: fullmatch_pattern matches_grammar_def lit_def)
  have h1: "subscribe_category Feed initial (Parsed ?d) (Inr (0, lit ''No error.'', 7))
     = (?st1, [MqttSubscribe [(mw_topic @ lit ''nseeq/2885'', 0)]],
        Inr (feed_result 0 (lit ''No error.'') []))"
    by (simp add: subscribe_category_def subscribe_def subscribe_strs [OF g] fm Let_def)
  have h2: "status (feed_result 0 (lit ''No error.'') []) = 0"
    by (simp add: feed_result_def)
  have h3: "subscriptions initial 3 = None" by (simp add: initial_def)
  note inst = subscribe_ack_removes_once [OF h1 h2, of "[\<lparr>code_value = 0, packetType = 9\<rparr>]" "[]"]
  from inst h3 have "on_subscribe initial 3 [] = (initial, notify initial (- 1) (str_int 3))"
    by simp
  with h1 h2 h3 inst show ?thesis by blast
qed

text \<open>
  Claim C8, evaluated where the code departs from it. The feed suffix \<^verbatim>\<open>nsev1/22\<close> is
  valid and is subscribed; its acknowledgement reports the topic \<^verbatim>\<open>nse\<close>, because the
  stored topic is cut at every marker and the second piece is taken. With an empty list
  of reason codes the entry is removed and no acknowledgement event is forwarded at all.
\<close>

theorem ack_suffix_cut_at_second_marker:
  "subscribe_category Feed (initial\<lparr>on_acknowledge_response := Some 1\<rparr>)
      (Parsed (JObj [(lit ''subscriptionList'', JList [JStr (lit ''nsev1/22'')])]))
      (Inr (0, lit ''No error.'', 5))
     = (initial\<lparr>on_acknowledge_response := Some 1,
                 subscriptions := [5 \<mapsto> [(mw_topic @ lit ''nsev1/22'', 0)]]\<rparr>,
        [MqttSubscribe [(mw_topic @ lit ''nsev1/22'', 0)]],
        Inr (feed_result 0 (lit ''No error.'') []))
   \<and> on_subscribe (initial\<lparr>on_acknowledge_response := Some 1,
                 subscriptions := [5 \<mapsto> [(mw_topic @ lit ''nsev1/22'', 0)]]\<rparr>)
        5 [\<lparr>code_value = 0, packetType = 9\<rparr>]
     = (initial\<lparr>on_acknowledge_response := Some 1\<rparr>,
        [AckCb 1 (SubscribeAckResponse 9 (lit ''SUBACK'')
           [\<lparr>resultCode = 0, result = lit ''Granted'', topic = lit ''nse''\<rparr>])])
   \<and> on_subscribe (initial\<lparr>on_acknowledge_response := Some 1,
                 subscriptions := [5 \<mapsto> [(mw_topic @ lit ''nsev1/22'', 0)]]\<rparr>)
        5 []
     = (initial\<lparr>on_acknowledge_response := Some 1\<rparr>, [])"
proof -
  let ?d = "JObj [(lit ''subscriptionList'', JList [JStr (lit ''nsev1/22'')])]"
  have g: "py_getitem ?d (lit ''subscriptionList'') = Inr (JList (map JStr [lit ''nsev1/22'']))"
    by simp
  have fm: "fullmatch pattern (lit ''nsev1/22'')"
    by (simp add: fullmatch_pattern matches_grammar_def lit_def)
  have A: "subscribe_category Feed (initial\<lparr>on_acknowledge_response := Some 1\<rparr>) (Parsed ?d)
      (Inr (0, lit ''No error.'', 5))
     = (initial\<lparr>on_acknowledge_response := Some 1,
                 subscriptions := [5 \<mapsto> [(mw_topic @ lit ''nsev1/22'', 0)]]\<rparr>,
        [MqttSubscribe [(mw_topic @ lit ''nsev1/22'', 0)]],
        Inr (feed_result 0 (lit ''No error.'') []))"
    by (simp add: subscribe_category_def subscribe_def subscribe_strs [OF g] fm Let_def initial_def)
  have B: "on_subscribe (initial\<lparr>on_acknowledge_response := Some 1,
                 subscriptions := [5 \<mapsto> [(mw_topic @ lit ''nsev1/22'', 0)]]\<rparr>)
        5 [\<lparr>code_value = 0, packetType = 9\<rparr>]
     = (initial\<lparr>on_acknowledge_response := Some 1\<rparr>,
        [AckCb 1 (SubscribeAckResponse 9 (lit ''SUBACK'')
           [\<lparr>resultCode = 0, result = lit ''Granted'', topic = lit ''nse''\<rparr>])])"
    by (simp add: on_subscribe_def on_subscribe_try_def pending_items_def notify_ack_def
          initial_def mw_topic_def marker_def lit_def Let_def)
  have C: "on_subscribe (initial\<lparr>on_acknowledge_response := Some 1,
                 subscriptions := [5 \<mapsto> [(mw_topic @ lit ''nsev1/22'', 0)]]\<rparr>)
        5 []
     = (initial\<lparr>on_acknowledge_response := Some 1\<rparr>, [])"
    by (simp add: on_subscribe_def on_subscribe_try_def pending_items_def notify_def
          initial_def Let_def)
  from A B C show ?thesis by blast
qed

section \<open>Dispatch\<close>

text \<open>
  Claim C1, evaluated where the code departs from it. The setter for the low 52 week
  category stores its handler under the high 52 week namespace: a message on the low
  52 week namespace reaches no handler, and a message on the high 52 week namespace
  reaches the handler registered through the low 52 week setter, not the one registered
  for its own category.
\<close>

theorem low_52_week_handler_misrouted:
  "on_message (register_handler Low52Week (Some 7) initial) (low_52_week @ lit ''nsecurr'') payload
     = (register_handler Low52Week (Some 7) initial\<lparr>count := 1\<rparr>, [])
   \<and> on_message (register_handler Low52Week (Some 7) (register_handler High52Week (Some 3) initial))
        (high_52_week @ lit ''nsecurr'') payload
     = (register_handler Low52Week (Some 7) (register_handler High52Week (Some 3) initial)
          \<lparr>count := 1\<rparr>,
        [DataCb 7 payload (lit ''nsecurr'')])"
  by (simp add: on_message_def on_message_try_def register_handler_def set_callback_def
        initial_def low_52_week_def high_52_week_def marker_def lit_def Let_def)

text \<open>
  Claim C5, evaluated where the code departs from it. The topic is cut at every
  occurrence of the marker, and the handler receives the second piece only: for the
  feed topic with suffix \<^verbatim>\<open>nsev1/22\<close> it is called with \<^verbatim>\<open>nse\<close>.
\<close>

theorem suffix_cut_at_second_marker:
  "on_message (register_handler Feed (Some 7) initial) (mw_topic @ lit ''nsev1/22'') payload
     = (register_handler Feed (Some 7) initial\<lparr>count := 1\<rparr>, [DataCb 7 payload (lit ''nse'')])"
  by (simp add: on_message_def on_message_try_def register_handler_def set_callback_def
        initial_def mw_topic_def marker_def lit_def Let_def)

section \<open>The unsubscribe path\<close>

lemma unsubscribe_try_state: "fst (unsubscribe_try st req p reply) = st"
  by (simp add: unsubscribe_try_def
        split: request.splits sum.splits prod.splits bool.splits)

lemma unsubscribe_state: "fst (unsubscribe st req p reply) = st"
proof -
  obtain st' evs r where t: "unsubscribe_try st req p reply = (st', evs, r)"
    by (cases "unsubscribe_try st req p reply") auto
  then have "st' = st" using unsubscribe_try_state [of st req p reply] by simp
  with t show ?thesis by (cases r) (simp_all add: unsubscribe_def)
qed

lemma unsubscribe_try_mid:
  "unsubscribe_try st req p (Inr (rc, text, mid)) = unsubscribe_try st req p (Inr (rc, text, mid'))"
  by (simp add: unsubscribe_try_def
        split: request.splits sum.splits prod.splits bool.splits)

text \<open>
  Claim C10, as amended. The unsubscribe path keeps no correlation record at all: an
  unsubscribe operation leaves every field of the session as it was, whatever the request
  and whatever the client answers, and its outcome does not depend on the message id the
  client assigned. The acknowledgement handler reads no table either; what it forwards to
  the acknowledgement callback is, beside the packet type supplied with the
  acknowledgement and the fixed packet name, the fixed status 0 and the fixed message,
  independent of the message id, of the reason codes and of the topics.
\<close>

theorem unsubscribe_keeps_no_record:
  "fst (unsubscribe_category c st req reply) = st
   \<and> unsubscribe_category c st req (Inr (rc, text, mid)) =
       unsubscribe_category c st req (Inr (rc, text, mid'))
   \<and> on_unsubscribe st mid rcs (Properties pt) =
       (st, notify_ack st
              (UnsubscribeAckResponse pt (lit ''UNSUBACK'') 0 (lit ''Unsubscribed Successfully'')))
   \<and> on_unsubscribe st mid rcs NoProperties =
       (st, notify st (- 1)
              (quoted (lit ''NoneType'') @ lit '' object has no attribute ''
                 @ quoted (lit ''packetType'')))"
proof -
  have A: "fst (unsubscribe_category c st req reply) = st"
    by (simp add: unsubscribe_category_def unsubscribe_state)
  have B: "unsubscribe_category c st req (Inr (rc, text, mid)) =
       unsubscribe_category c st req (Inr (rc, text, mid'))"
    by (simp add: unsubscribe_category_def unsubscribe_def
          unsubscribe_try_mid [of st req _ rc "text" mid "mid'"])
  have C: "on_unsubscribe st mid rcs (Properties pt) =
       (st, notify_ack st
              (UnsubscribeAckResponse pt (lit ''UNSUBACK'') 0 (lit ''Unsubscribed Successfully'')))"
    by (simp add: on_unsubscribe_def on_unsubscribe_try_def)
  have D: "on_unsubscribe st mid rcs NoProperties =
       (st, notify st (- 1)
              (quoted (lit ''NoneType'') @ lit '' object has no attribute ''
                 @ quoted (lit ''packetType'')))"
    by (simp add: on_unsubscribe_def on_unsubscribe_try_def)
  from A B C D show ?thesis by blast
qed

text \<open>
  The claim as first stated speaks of bookkeeping keyed by the submitted topic strings.
  After an accepted unsubscribe submission the session is exactly the one before it: the
  topic strings went to the client and were recorded nowhere.
\<close>

theorem unsubscribe_keeps_no_record_counterexample:
  "unsubscribe_category Feed initial
      (Parsed (JObj [(lit ''unsubscriptionList'', JList [JStr (lit ''nseeq/2885'')])]))
      (Inr (0, lit ''No error.'', 9))
    = (initial, [MqttUnsubscribe [mw_topic @ lit ''nseeq/2885'']],
       Inr (feed_result 0 (lit ''No error.'') []))
   \<and> subscriptions initial = Map.empty"
proof -
  let ?d = "JObj [(lit ''unsubscriptionList'', JList [JStr (lit ''nseeq/2885'')])]"
  have g: "py_getitem ?d (lit ''unsubscriptionList'') = Inr (JList (map JStr [lit ''nseeq/2885'']))"
    by simp
  have fm: "fullmatch pattern (lit ''nseeq/2885'')"
    by (simp add: fullmatch_pattern matches_grammar_def lit_def)
  have w: "within_bounds (JList [JStr (lit ''nseeq/2885'')]) = Inr True"
    by (simp add: within_bounds_list)
  have "unsubscribe_try initial (Parsed ?d) mw_topic (Inr (0, lit ''No error.'', 9))
      = (initial, [MqttUnsubscribe [mw_topic @ lit ''nseeq/2885'']],
         Inr (feed_result 0 (lit ''No error.'') []))"
    using g by (simp add: unsubscribe_try_def w build_unsubscribe_strs [OF g] fm)
  then show ?thesis
    by (simp add: unsubscribe_category_def unsubscribe_def initial_def)
qed

section \<open>Connecting while connected\<close>

lemma notify_no_connect: "MqttConnect h p \<notin> set (notify st code text)"
  by (simp add: notify_def split: option.splits)

lemma connect_try_connected:
  assumes "is_connected env = Inr True"
      and "connect_try st req env = (evs, r)"
  shows "MqttConnect h p \<notin> set evs"
  using assms
  by (auto simp: connect_try_def validate_Token_def is_host_connected_def notify_def
        split: request.splits sum.splits prod.splits if_splits option.splits)

lemma connect_except_no_connect:
  "connect_except st ex = (evs, r) \<Longrightarrow> MqttConnect h p \<notin> set evs"
  by (auto simp: connect_except_def notify_def split: option.splits if_splits)

lemma connect_host_state: "fst (connect_host st req env) = st"
  by (simp add: connect_host_def split: prod.splits sum.splits exn.splits)

lemma connect_host_connected_events:
  assumes "is_connected env = Inr True"
  shows "MqttConnect h p \<notin> set (fst (snd (connect_host st req env)))"
proof -
  obtain evs r where t: "connect_try st req env = (evs, r)"
    by (cases "connect_try st req env") auto
  have e: "MqttConnect h p \<notin> set evs" by (rule connect_try_connected [OF assms t])
  show ?thesis
  proof (cases r)
    case (Inr x)
    with t e show ?thesis by (simp add: connect_host_def)
  next
    case (Inl ex)
    obtain evs' r' where c: "connect_except st ex = (evs', r')"
      by (cases "connect_except st ex") auto
    have "MqttConnect h p \<notin> set evs'" by (rule connect_except_no_connect [OF c])
    with t e Inl c show ?thesis
      by (cases ex) (simp_all add: connect_host_def notify_no_connect)
  qed
qed

text \<open>
  Claim C6, as amended. While the client reports that it is connected, no connect
  operation calls the client's connect or changes the session (pending subscriptions and
  registered handlers included), whatever the request. It returns status 105 for every
  request that passes the checks made before the connectivity query: it parses, it
  carries a token, and the token validation answers \<^verbatim>\<open>Success\<close>.
\<close>

theorem connect_while_connected:
  assumes "is_connected env = Inr True"
  shows "fst (connect_host st req env) = st
       \<and> (\<forall>h p. MqttConnect h p \<notin> set (fst (snd (connect_host st req env))))
       \<and> (\<forall>req_data token msg.
            req = Parsed req_data
            \<and> py_getitem req_data (lit ''token'') = Inr token
            \<and> token_check env = Inr (JStr (lit ''Success''), msg)
            \<longrightarrow> connect_host st req env =
                  (st, [MqttBind],
                   Inr \<lparr>status = 105, message = lit ''Client is already connected''\<rparr>))"
proof -
  have "connect_host st (Parsed req_data) env =
          (st, [MqttBind], Inr \<lparr>status = 105, message = lit ''Client is already connected''\<rparr>)"
    if "py_getitem req_data (lit ''token'') = Inr token"
      and "token_check env = Inr (JStr (lit ''Success''), msg)"
    for req_data token msg
    using that assms
    by (simp add: connect_host_def connect_try_def validate_Token_def is_host_connected_def
          conn_result_def)
  then show ?thesis
    using connect_host_state [of st req env] connect_host_connected_events [OF assms]
    by blast
qed

theorem connect_while_connected_witness:
  "is_connected \<lparr>user_name = lit ''tester'',
                  token_check = Inr (JStr (lit ''Success''), lit ''Valid token''),
                  is_connected = Inr True,
                  connect_reply = Inr (0, lit ''No error.'')\<rparr> = Inr True
   \<and> py_getitem (JObj [(lit ''host'', JStr (lit ''bridge.iiflcapital.com'')),
                       (lit ''port'', JInt 9906),
                       (lit ''token'', JStr (lit ''abc'')) ]) (lit ''token'')
       = Inr (JStr (lit ''abc''))
   \<and> connect_host initial
        (Parsed (JObj [(lit ''host'', JStr (lit ''bridge.iiflcapital.com'')),
                       (lit ''port'', JInt 9906),
                       (lit ''token'', JStr (lit ''abc'')) ]))
        \<lparr>user_name = lit ''tester'',
         token_check = Inr (JStr (lit ''Success''), lit ''Valid token''),
         is_connected = Inr True,
         connect_reply = Inr (0, lit ''No error.'')\<rparr>
       = (initial, [MqttBind],
          Inr \<lparr>status = 105, message = lit ''Client is already connected''\<rparr>)"
proof -
  let ?env = "\<lparr>user_name = lit ''tester'',
                  token_check = Inr (JStr (lit ''Success''), lit ''Valid token''),
                  is_connected = Inr True,
                  connect_reply = Inr (0, lit ''No error.'')\<rparr>"
  let ?d = "JObj [(lit ''host'', JStr (lit ''bridge.iiflcapital.com'')),
                       (lit ''port'', JInt 9906),
                       (lit ''token'', JStr (lit ''abc'')) ]"
  have h1: "is_connected ?env = Inr True" by simp
  have h2: "py_getitem ?d (lit ''token'') = Inr (JStr (lit ''abc''))"
    by (simp add: lit_def)
  have h3: "token_check ?env = Inr (JStr (lit ''Success''), lit ''Valid token'')" by simp
  show ?thesis
    using h1 h2 h3 connect_while_connected [OF h1, of initial "Parsed ?d"]
    by blast
qed

text \<open>
  The claim as first stated fails for a request that is well formed and whose token the
  validation does not accept: the validation comes before the connectivity query, and
  the result is status 1 with the validation's message, although the client is connected.
\<close>

theorem connect_while_connected_counterexample:
  "connect_host initial
        (Parsed (JObj [(lit ''host'', JStr (lit ''bridge.iiflcapital.com'')),
                       (lit ''port'', JInt 9906),
                       (lit ''token'', JStr (lit ''abc'')) ]))
        \<lparr>user_name = lit ''tester'',
         token_check = Inr (JStr (lit ''Failure''), lit ''Invalid token''),
         is_connected = Inr True,
         connect_reply = Inr (0, lit ''No error.'')\<rparr>
       = (initial, [], Inr \<lparr>status = 1, message = lit ''Invalid token''\<rparr>)"
  by (simp add: connect_host_def connect_try_def validate_Token_def conn_result_def lit_def)

section \<open>Exceptions at the public boundary\<close>







text \<open>
  The last \<^verbatim>\<open>except\<close> clause of connect reads \<^verbatim>\<open>ex.errno\<close> of any exception. For one
  without that attribute, such as the \<^verbatim>\<open>ValueError\<close> the client raises for an empty host,
  the read itself raises and that exception leaves the operation.
\<close>

lemma connect_host_escape:
  "connect_host initial
       (Parsed (JObj [(lit ''host'', JStr []), (lit ''port'', JInt 9906),
                      (lit ''token'', JStr (lit ''abc''))]))
       \<lparr>user_name = lit ''tester'', token_check = Inr (JStr (lit ''Success''), lit ''Valid token''),
        is_connected = Inr False,
        connect_reply = Inl (ValueError (lit ''Invalid host.''))\<rparr>
     = (initial,
        [MqttBind, MqttCredentials (lit ''tester'') (lit ''OPENID~~abc~''),
         MqttConnect (JStr []) (JInt 9906)],
        Inl (AttributeError (quoted (lit ''ValueError'') @ lit '' object has no attribute ''
                               @ quoted (lit ''errno''))))"
  by (simp add: connect_host_def connect_try_def connect_except_def validate_Token_def
        is_host_connected_def lit_def)

end
